theory Spec2Isabelle
  imports Main
begin

section \<open>Python values and exceptions\<close>

text \<open>
  The development embeds \<^verbatim>\<open>src/pymor/parameters/functionals.py\<close> and the loader
  \<^verbatim>\<open>load_matrix\<close> of \<^verbatim>\<open>src/pymor/tools/io.py\<close>. Exceptions are values of
  \<open>exc\<close>; a function that can raise returns \<open>exc + 'a\<close> with \<open>Inl\<close> for the exception.
  \<open>IOErrorOf e\<close> is \<^verbatim>\<open>IOError(e)\<close>, the IOError made from a caught exception \<open>e\<close>.
  \<open>OutsideModel\<close> is not a Python exception: it marks an input on which the embedding
  makes no statement (floating point, a construct of Python that is not modelled).
\<close>

datatype exc =
    AssertionError
  | TypeError
  | IndexError
  | KeyError string
  | NameError string
  | SyntaxError
  | TypeMismatch string
  | IOError string
  | IOErrorOf exc
  | OtherError string
  | OutsideModel

text \<open>
  Objects: \<open>VArr shape data\<close> is a numpy array (or numpy scalar, shape \<open>[]\<close>) with its
  elements in row-major order; elements are integers (floating point is not modelled).
  \<open>VFun\<close> is a function object known by its qualified name, \<open>VModule\<close> a module.
\<close>

datatype pyval =
    VNone
  | VInt int
  | VStr string
  | VArr "nat list" "int list"
  | VFun string
  | VModule string

text \<open>An index as Python passes it to \<^verbatim>\<open>__getitem__\<close>: an integer or a tuple of integers.\<close>

datatype pyindex = IInt int | ITuple "int list"

text \<open>The \<^verbatim>\<open>parameter_shape\<close> argument: a bare number or a tuple.\<close>

datatype shape_arg = SNum nat | STuple "nat list"

text \<open>
  The comparison \<^verbatim>\<open>coordinates < parameter_shape\<close> has an integer on the left and a
  tuple on the right when \<^verbatim>\<open>coordinates\<close> is an integer. Python 2 orders a number before
  any tuple; Python 3 raises TypeError. The interpreter version is therefore a parameter.
\<close>

datatype pyver = Py2 | Py3

type_synonym ptype = "(string \<times> nat list) list"
type_synonym params = "string \<rightharpoonup> pyval"

subsection \<open>Tuples and arrays\<close>

text \<open>Python's \<^verbatim>\<open><\<close> on two tuples of integers: lexicographic, a proper prefix is smaller.\<close>

fun tuple_lt :: "int list \<Rightarrow> int list \<Rightarrow> bool" where
  "tuple_lt [] [] = False"
| "tuple_lt [] (y # ys) = True"
| "tuple_lt (x # xs) [] = False"
| "tuple_lt (x # xs) (y # ys) = (if x = y then tuple_lt xs ys else x < y)"

definition py_lt :: "pyver \<Rightarrow> pyindex \<Rightarrow> nat list \<Rightarrow> exc + bool" where
  "py_lt pv c shape =
     (case c of
        ITuple t \<Rightarrow> Inr (tuple_lt t (map int shape))
      | IInt i \<Rightarrow> (case pv of Py2 \<Rightarrow> Inr True | Py3 \<Rightarrow> Inl TypeError))"

text \<open>
  \<^verbatim>\<open>a[i]\<close> for an integer \<open>i\<close>: the \<open>i\<close>-th slice along the first axis, negative indices
  counting from the end; IndexError on a 0-dimensional array or out of range. On another
  object \<^verbatim>\<open>[]\<close> is not modelled.
\<close>

definition getitem_int :: "pyval \<Rightarrow> int \<Rightarrow> exc + pyval" where
  "getitem_int a i =
     (case a of
        VArr shape data \<Rightarrow>
          (case shape of
             [] \<Rightarrow> Inl IndexError
           | n # rest \<Rightarrow>
               (let j = (if i < 0 then i + int n else i)
                in if 0 \<le> j \<and> j < int n
                   then Inr (VArr rest (take (prod_list rest) (drop (nat j * prod_list rest) data)))
                   else Inl IndexError))
      | _ \<Rightarrow> Inl OutsideModel)"

text \<open>\<^verbatim>\<open>a[(i, j, ...)]\<close>: one integer per axis, from the first axis on.\<close>

fun getitem_tuple :: "pyval \<Rightarrow> int list \<Rightarrow> exc + pyval" where
  "getitem_tuple a [] = (case a of VArr shape data \<Rightarrow> Inr a | _ \<Rightarrow> Inl OutsideModel)"
| "getitem_tuple a (i # rest) =
     (case getitem_int a i of Inl e \<Rightarrow> Inl e | Inr b \<Rightarrow> getitem_tuple b rest)"

definition getitem :: "pyval \<Rightarrow> pyindex \<Rightarrow> exc + pyval" where
  "getitem a c = (case c of IInt i \<Rightarrow> getitem_int a i | ITuple t \<Rightarrow> getitem_tuple a t)"

text \<open>\<^verbatim>\<open>d[k]\<close> on a mapping.\<close>

definition dict_get :: "params \<Rightarrow> string \<Rightarrow> exc + pyval" where
  "dict_get d k = (case d k of None \<Rightarrow> Inl (KeyError k) | Some v \<Rightarrow> Inr v)"

section \<open>Parameter types\<close>

text \<open>
  A shape given as a bare number \<open>N\<close> is the tuple \<open>()\<close> if \<open>N = 0\<close> and \<open>(N,)\<close> otherwise
  (line 34 of \<^verbatim>\<open>functionals.py\<close> does this itself for the projection functional).
\<close>

definition normalize_shape :: "shape_arg \<Rightarrow> nat list" where
  "normalize_shape s = (case s of SNum n \<Rightarrow> (if n = 0 then [] else [n]) | STuple t \<Rightarrow> t)"

text \<open>
  Modelled from the spec: \<^verbatim>\<open>build_parameter_type\<close> is a method of
  \<^verbatim>\<open>ParameterFunctionalInterface\<close> (\<^verbatim>\<open>interfaces.py\<close>, not among the sources). It
  accepts a mapping from name to shape, normalises a bare number as above and stores the
  result on the functional. The argument \<^verbatim>\<open>local_global\<close> is not described and is left out.
\<close>

definition build_parameter_type :: "(string \<times> shape_arg) list \<Rightarrow> ptype" where
  "build_parameter_type declaration = map (\<lambda>(k, s). (k, normalize_shape s)) declaration"

text \<open>
  Modelled from the spec: a bare number in a parameter value is normalised to the array
  of shape \<open>()\<close> holding it; no structure other than a number or an array is accepted.
\<close>

definition normalize_value :: "pyval \<Rightarrow> pyval option" where
  "normalize_value v =
     (case v of VInt n \<Rightarrow> Some (VArr [] [n]) | VArr shape data \<Rightarrow> Some v | _ \<Rightarrow> None)"

text \<open>The shape of an array.\<close>

definition shape_of :: "pyval \<Rightarrow> nat list" where
  "shape_of v = (case v of VArr shape data \<Rightarrow> shape | _ \<Rightarrow> [])"

text \<open>
  Modelled from the spec: the validation of a raw value against the declared entries, one
  after the other (the loop inside \<^verbatim>\<open>parse_parameter\<close>). A declared name that is
  missing and a value whose shape is not the declared one are a TypeMismatch naming the
  parameter.
\<close>

fun parse_entries :: "ptype \<Rightarrow> params \<Rightarrow> exc + params" where
  "parse_entries [] raw = Inr Map.empty"
| "parse_entries ((k, shape) # rest) raw =
     (case raw k of
        None \<Rightarrow> Inl (TypeMismatch k)
      | Some v \<Rightarrow>
          (case normalize_value v of
             None \<Rightarrow> Inl (TypeMismatch k)
           | Some a \<Rightarrow>
               if shape_of a = shape
               then (case parse_entries rest raw of
                       Inl e \<Rightarrow> Inl e
                     | Inr m \<Rightarrow> Inr (m(k \<mapsto> a)))
               else Inl (TypeMismatch k)))"

text \<open>
  Modelled from the spec: \<^verbatim>\<open>parse_parameter\<close> is a method of
  \<^verbatim>\<open>ParameterFunctionalInterface\<close> (\<^verbatim>\<open>interfaces.py\<close>, not among the sources). Given a
  raw value it returns the validated value, a binding of every declared name to an array
  of exactly the declared shape, or fails with TypeMismatch naming the offending
  parameter (a declared name that is missing, or a value of another shape). \<open>None\<close> is
  accepted only when the declared type has at most one entry and that entry has shape
  \<open>()\<close>; it then stands for "no parameter" and the validated value binds nothing.
\<close>

definition parse_parameter :: "ptype \<Rightarrow> params option \<Rightarrow> exc + params" where
  "parse_parameter pt mu =
     (case mu of
        None \<Rightarrow>
          (if length pt \<le> 1 \<and> list_all (\<lambda>(k, shape). shape = []) pt
           then Inr Map.empty
           else Inl (TypeMismatch []))
      | Some raw \<Rightarrow> parse_entries pt raw)"

text \<open>
  Modelled from the spec: a value conforms to a parameter type when it binds every
  declared name to an array of exactly the declared shape.
\<close>

definition conforms :: "ptype \<Rightarrow> params \<Rightarrow> bool" where
  "conforms pt v =
     list_all (\<lambda>(k, shape). case v k of Some (VArr sh data) \<Rightarrow> sh = shape | _ \<Rightarrow> False) pt"

section \<open>The functionals\<close>

text \<open>
  Modelled from the spec: the attributes every functional has by way of
  \<^verbatim>\<open>ParameterFunctionalInterface\<close> (\<^verbatim>\<open>interfaces.py\<close>, not among the sources): the
  name, the parameter type that \<^verbatim>\<open>build_parameter_type\<close> stores, and whether
  \<^verbatim>\<open>lock()\<close>, which ends each constructor, has been called.
\<close>

record ParameterFunctionalInterface =
  name :: "string option"
  parameter_type :: ptype
  locked :: bool

subsection \<open>ProjectionParameterFunctional\<close>

record ProjectionParameterFunctional = ParameterFunctionalInterface +
  parameter_name :: string
  coordinates :: "pyindex option"

text \<open>
  \<^verbatim>\<open>__init__\<close>, lines 30 to 40. The check of line 37 sums the entries of the shape
  tuple; the assertion of line 38 compares \<^verbatim>\<open>coordinates\<close> with the shape tuple itself.
\<close>

definition ProjectionParameterFunctional_init ::
  "pyver \<Rightarrow> string \<Rightarrow> shape_arg \<Rightarrow> pyindex option \<Rightarrow> string option
     \<Rightarrow> exc + ProjectionParameterFunctional" where
  "ProjectionParameterFunctional_init pv parameter_name' parameter_shape coordinates' name' =
     (let shape = normalize_shape parameter_shape;
          self = \<lparr> name = name',
                   parameter_type = build_parameter_type [(parameter_name', STuple shape)],
                   locked = True,
                   parameter_name = parameter_name',
                   coordinates = coordinates' \<rparr>
      in if sum_list shape > 1
         then (case coordinates' of
                 None \<Rightarrow> Inl AssertionError
               | Some c \<Rightarrow>
                   (case py_lt pv c shape of
                      Inl e \<Rightarrow> Inl e
                    | Inr b \<Rightarrow> if b then Inr self else Inl AssertionError))
         else Inr self)"

text \<open>\<^verbatim>\<open>evaluate\<close>, lines 42 to 47.\<close>

definition ProjectionParameterFunctional_evaluate ::
  "ProjectionParameterFunctional \<Rightarrow> params option \<Rightarrow> exc + pyval" where
  "ProjectionParameterFunctional_evaluate self mu =
     (case parse_parameter (parameter_type self) mu of
        Inl e \<Rightarrow> Inl e
      | Inr mu' \<Rightarrow>
          (case coordinates self of
             None \<Rightarrow> dict_get mu' (parameter_name self)
           | Some c \<Rightarrow>
               (case dict_get mu' (parameter_name self) of
                  Inl e \<Rightarrow> Inl e
                | Inr a \<Rightarrow> getitem a c)))"

subsection \<open>GenericParameterFunctional\<close>

text \<open>
  The wrapped \<^verbatim>\<open>mapping\<close> is an arbitrary Python callable: it may raise, and it may read
  and change program state. It is a function from the validated parameter and the state
  \<open>'s\<close> it can reach to its outcome and the new state.
\<close>

record 's GenericParameterFunctional = ParameterFunctionalInterface +
  mapping :: "params \<Rightarrow> 's \<Rightarrow> (exc + pyval) \<times> 's"

text \<open>\<^verbatim>\<open>__init__\<close>, lines 63 to 68.\<close>

definition GenericParameterFunctional_init ::
  "(params \<Rightarrow> 's \<Rightarrow> (exc + pyval) \<times> 's) \<Rightarrow> (string \<times> shape_arg) list \<Rightarrow> string option
     \<Rightarrow> 's GenericParameterFunctional" where
  "GenericParameterFunctional_init mapping' parameter_type' name' =
     \<lparr> name = name',
       parameter_type = build_parameter_type parameter_type',
       locked = True,
       mapping = mapping' \<rparr>"

text \<open>\<^verbatim>\<open>evaluate\<close>, lines 70 to 72. The subclass below inherits it, hence the record scheme.\<close>

definition GenericParameterFunctional_evaluate ::
  "('s, 'z) GenericParameterFunctional_scheme \<Rightarrow> params option \<Rightarrow> 's \<Rightarrow> (exc + pyval) \<times> 's" where
  "GenericParameterFunctional_evaluate self mu s =
     (case parse_parameter (parameter_type self) mu of
        Inl e \<Rightarrow> (Inl e, s)
      | Inr mu' \<Rightarrow> mapping self mu' s)"

section \<open>Expressions: \<^verbatim>\<open>compile\<close> and \<^verbatim>\<open>eval\<close>\<close>

text \<open>
  \<^verbatim>\<open>ExpressionParameterFunctional\<close> calls Python's \<^verbatim>\<open>compile(expression, ..., 'eval')\<close>
  and \<^verbatim>\<open>eval(code, globals, locals)\<close>. Both are modelled on a fragment of Python's
  expressions: integer and string literals, names, unary and binary \<^verbatim>\<open>+\<close> and \<^verbatim>\<open>-\<close>,
  \<^verbatim>\<open>*\<close>, calls with positional arguments, attribute references and parentheses. On a
  string that is, or may be, an expression outside the fragment, \<open>compile_expr\<close> answers
  \<open>OutsideModel\<close>; it answers \<open>SyntaxError\<close> only where Python does.
\<close>

datatype binop = Add | Sub | Mult
datatype unop = UAdd | USub

datatype expr =
    Num int
  | Str string
  | Name string
  | BinOp expr binop expr
  | UnaryOp unop expr
  | Call expr "expr list"
  | Attribute expr string

subsection \<open>Tokens\<close>

datatype token =
    TName string | TNum nat | TStr string
  | TPlus | TMinus | TStar | TLPar | TRPar | TComma | TDot

text \<open>
  What the scanner is inside of: nothing (\<open>LStart\<close>), nothing but just behind a \<^verbatim>\<open>.\<close>,
  a \<^verbatim>\<open>*\<close> or a closing quote, a name, a number, or a string literal opened by the given
  quote. Names,
  digits and string contents are accumulated in reverse.
\<close>

datatype lexmode =
    LStart | LAfterDot | LAfterStar | LAfterStr
  | LInName string | LInNum string | LInStr char string

definition is_digit :: "char \<Rightarrow> bool" where
  "is_digit c = (c \<in> set ''0123456789'')"

definition is_name_start :: "char \<Rightarrow> bool" where
  "is_name_start c =
     (c \<in> set ''abcdefghijklmnopqrstuvwxyzABCDEFGHIJKLMNOPQRSTUVWXYZ_'')"

definition is_quote :: "char \<Rightarrow> bool" where
  "is_quote c = (c = CHR 0x27 \<or> c = CHR 0x22)"

text \<open>Characters a string literal of the fragment may hold: printable ASCII but the backslash.\<close>

definition is_plain :: "char \<Rightarrow> bool" where
  "is_plain c = (32 \<le> (of_char c :: nat) \<and> (of_char c :: nat) \<le> 126 \<and> c \<noteq> CHR 0x5C)"

text \<open>
  Words that are keywords in some version of Python; an expression that uses one is
  outside the fragment.
\<close>

definition py_keywords :: "string list" where
  "py_keywords =
     [''and'', ''as'', ''assert'', ''async'', ''await'', ''break'', ''class'', ''continue'',
      ''def'', ''del'', ''elif'', ''else'', ''except'', ''exec'', ''finally'', ''for'',
      ''from'', ''global'', ''if'', ''import'', ''in'', ''is'', ''lambda'', ''nonlocal'',
      ''not'', ''or'', ''pass'', ''print'', ''raise'', ''return'', ''try'', ''while'',
      ''with'', ''yield'', ''None'', ''True'', ''False'']"

definition digit_value :: "char \<Rightarrow> nat" where
  "digit_value c = of_char c - 48"

definition number_value :: "string \<Rightarrow> nat" where
  "number_value ds = foldl (\<lambda>acc c. 10 * acc + digit_value c) 0 ds"

text \<open>The token that ends when the scanner leaves a name or a number.\<close>

definition flush :: "lexmode \<Rightarrow> exc + token list" where
  "flush m =
     (case m of
        LInName acc \<Rightarrow>
          (if rev acc \<in> set py_keywords then Inl OutsideModel else Inr [TName (rev acc)])
      | LInNum acc \<Rightarrow>
          (if length acc > 1 \<and> last acc = CHR ''0'' then Inl OutsideModel
           else Inr [TNum (number_value (rev acc))])
      | LInStr q acc \<Rightarrow> Inl SyntaxError
      | _ \<Rightarrow> Inr [])"

text \<open>A character met outside any name, number or string.\<close>

definition start_char :: "char \<Rightarrow> exc + token list \<times> lexmode" where
  "start_char c =
     (if c = CHR '' '' then Inr ([], LStart)
      else if is_name_start c then Inr ([], LInName [c])
      else if is_digit c then Inr ([], LInNum [c])
      else if is_quote c then Inr ([], LInStr c [])
      else if c = CHR ''+'' then Inr ([TPlus], LStart)
      else if c = CHR ''-'' then Inr ([TMinus], LStart)
      else if c = CHR ''*'' then Inr ([TStar], LAfterStar)
      else if c = CHR ''('' then Inr ([TLPar], LStart)
      else if c = CHR '')'' then Inr ([TRPar], LStart)
      else if c = CHR '','' then Inr ([TComma], LStart)
      else if c = CHR ''.'' then Inr ([TDot], LAfterDot)
      else Inl OutsideModel)"

text \<open>
  One character. Left to \<open>OutsideModel\<close>: a quote right behind a name (a string prefix),
  a letter or dot right behind digits (floats, other bases, suffixes), a digit or dot
  right behind a dot, \<^verbatim>\<open>**\<close>, a quote right behind a closing quote (triple quotes), and
  a backslash or control character in a string.
\<close>

definition lex_step :: "lexmode \<Rightarrow> char \<Rightarrow> exc + token list \<times> lexmode" where
  "lex_step m c =
     (case m of
        LStart \<Rightarrow> start_char c
      | LAfterDot \<Rightarrow>
          (if is_digit c \<or> c = CHR ''.'' then Inl OutsideModel else start_char c)
      | LAfterStar \<Rightarrow>
          (if c = CHR ''*'' then Inl OutsideModel else start_char c)
      | LAfterStr \<Rightarrow>
          (if is_quote c then Inl OutsideModel else start_char c)
      | LInName acc \<Rightarrow>
          (if is_name_start c \<or> is_digit c then Inr ([], LInName (c # acc))
           else if is_quote c then Inl OutsideModel
           else (case flush m of
                   Inl e \<Rightarrow> Inl e
                 | Inr ts \<Rightarrow>
                     (case start_char c of
                        Inl e \<Rightarrow> Inl e
                      | Inr (ts', m') \<Rightarrow> Inr (ts @ ts', m'))))
      | LInNum acc \<Rightarrow>
          (if is_digit c then Inr ([], LInNum (c # acc))
           else if is_name_start c \<or> c = CHR ''.'' then Inl OutsideModel
           else (case flush m of
                   Inl e \<Rightarrow> Inl e
                 | Inr ts \<Rightarrow>
                     (case start_char c of
                        Inl e \<Rightarrow> Inl e
                      | Inr (ts', m') \<Rightarrow> Inr (ts @ ts', m'))))
      | LInStr q acc \<Rightarrow>
          (if c = q then Inr ([TStr (rev acc)], LAfterStr)
           else if is_plain c then Inr ([], LInStr q (c # acc))
           else Inl OutsideModel))"

fun lex :: "lexmode \<Rightarrow> string \<Rightarrow> exc + token list" where
  "lex m [] = flush m"
| "lex m (c # cs) =
     (case lex_step m c of
        Inl e \<Rightarrow> Inl e
      | Inr (ts, m') \<Rightarrow> (case lex m' cs of Inl e \<Rightarrow> Inl e | Inr ts' \<Rightarrow> Inr (ts @ ts')))"

subsection \<open>The parser\<close>

text \<open>
  Recursive descent with fuel: every call spends one unit, and an expression that needs
  more than \<open>compile_fuel\<close> is left to \<open>OutsideModel\<close> (Python's own parser has limits of
  this kind; the bound here is below them). A result is the expression read and the
  tokens left. SyntaxError is answered where no Python expression can continue; a comma
  after an expression that is not an argument (a tuple), \<^verbatim>\<open>()\<close>, two adjacent string
  literals and a \<^verbatim>\<open>*\<close> in operand position are outside the fragment.
\<close>

text \<open>The name a token list starts with, if it starts with one.\<close>

definition name_token :: "token list \<Rightarrow> string option" where
  "name_token ts = (case ts of TName a # ts' \<Rightarrow> Some a | _ \<Rightarrow> None)"

text \<open>An operand that is one token: a name, a number, a string literal.\<close>

definition literal_atom :: "token list \<Rightarrow> exc + expr \<times> token list" where
  "literal_atom ts =
     (case ts of
        [] \<Rightarrow> Inl SyntaxError
      | t # ts' \<Rightarrow>
          (case t of
             TName x \<Rightarrow> Inr (Name x, ts')
           | TNum k \<Rightarrow> Inr (Num (int k), ts')
           | TStr x \<Rightarrow>
               (case ts' of
                  [] \<Rightarrow> Inr (Str x, ts')
                | t' # ts'' \<Rightarrow> (case t' of TStr y \<Rightarrow> Inl OutsideModel | _ \<Rightarrow> Inr (Str x, ts')))
           | TStar \<Rightarrow> Inl OutsideModel
           | _ \<Rightarrow> Inl SyntaxError))"

function (sequential) parse_sum :: "nat \<Rightarrow> token list \<Rightarrow> exc + expr \<times> token list"
and parse_sum_rest :: "nat \<Rightarrow> expr \<Rightarrow> token list \<Rightarrow> exc + expr \<times> token list"
and parse_term :: "nat \<Rightarrow> token list \<Rightarrow> exc + expr \<times> token list"
and parse_term_rest :: "nat \<Rightarrow> expr \<Rightarrow> token list \<Rightarrow> exc + expr \<times> token list"
and parse_factor :: "nat \<Rightarrow> token list \<Rightarrow> exc + expr \<times> token list"
and parse_trailers :: "nat \<Rightarrow> expr \<Rightarrow> token list \<Rightarrow> exc + expr \<times> token list"
and parse_atom :: "nat \<Rightarrow> token list \<Rightarrow> exc + expr \<times> token list"
and parse_args :: "nat \<Rightarrow> token list \<Rightarrow> exc + expr list \<times> token list"
where
  "parse_sum 0 ts = Inl OutsideModel"
| "parse_sum (Suc n) ts =
     (case parse_term n ts of Inl e \<Rightarrow> Inl e | Inr (l, ts') \<Rightarrow> parse_sum_rest n l ts')"
| "parse_sum_rest 0 l ts = Inl OutsideModel"
| "parse_sum_rest (Suc n) l ts =
     (if take 1 ts = [TPlus]
      then (case parse_term n (tl ts) of
              Inl e \<Rightarrow> Inl e
            | Inr (r, ts') \<Rightarrow> parse_sum_rest n (BinOp l Add r) ts')
      else if take 1 ts = [TMinus]
      then (case parse_term n (tl ts) of
              Inl e \<Rightarrow> Inl e
            | Inr (r, ts') \<Rightarrow> parse_sum_rest n (BinOp l Sub r) ts')
      else Inr (l, ts))"
| "parse_term 0 ts = Inl OutsideModel"
| "parse_term (Suc n) ts =
     (case parse_factor n ts of Inl e \<Rightarrow> Inl e | Inr (l, ts') \<Rightarrow> parse_term_rest n l ts')"
| "parse_term_rest 0 l ts = Inl OutsideModel"
| "parse_term_rest (Suc n) l ts =
     (if take 1 ts = [TStar]
      then (case parse_factor n (tl ts) of
              Inl e \<Rightarrow> Inl e
            | Inr (r, ts') \<Rightarrow> parse_term_rest n (BinOp l Mult r) ts')
      else Inr (l, ts))"
| "parse_factor 0 ts = Inl OutsideModel"
| "parse_factor (Suc n) ts =
     (if take 1 ts = [TPlus]
      then (case parse_factor n (tl ts) of
              Inl e \<Rightarrow> Inl e
            | Inr (x, ts') \<Rightarrow> Inr (UnaryOp UAdd x, ts'))
      else if take 1 ts = [TMinus]
      then (case parse_factor n (tl ts) of
              Inl e \<Rightarrow> Inl e
            | Inr (x, ts') \<Rightarrow> Inr (UnaryOp USub x, ts'))
      else (case parse_atom n ts of Inl e \<Rightarrow> Inl e | Inr (a, ts') \<Rightarrow> parse_trailers n a ts'))"
| "parse_trailers 0 x ts = Inl OutsideModel"
| "parse_trailers (Suc n) x ts =
     (if take 1 ts = [TLPar]
      then (case parse_args n (tl ts) of
              Inl e \<Rightarrow> Inl e
            | Inr (args, ts') \<Rightarrow> parse_trailers n (Call x args) ts')
      else if take 1 ts = [TDot]
      then (case name_token (tl ts) of
              None \<Rightarrow> Inl SyntaxError
            | Some a \<Rightarrow> parse_trailers n (Attribute x a) (tl (tl ts)))
      else Inr (x, ts))"
| "parse_atom 0 ts = Inl OutsideModel"
| "parse_atom (Suc n) ts =
     (if take 1 ts = [TLPar]
      then (if take 1 (tl ts) = [TRPar] then Inl OutsideModel
            else (case parse_sum n (tl ts) of
                    Inl e \<Rightarrow> Inl e
                  | Inr (x, ts') \<Rightarrow>
                      if take 1 ts' = [TRPar] then Inr (x, tl ts')
                      else if take 1 ts' = [TComma] then Inl OutsideModel
                      else Inl SyntaxError))
      else literal_atom ts)"
| "parse_args 0 ts = Inl OutsideModel"
| "parse_args (Suc n) ts =
     (if take 1 ts = [TRPar] then Inr ([], tl ts)
      else (case parse_sum n ts of
              Inl e \<Rightarrow> Inl e
            | Inr (a, ts') \<Rightarrow>
                if take 1 ts' = [TRPar] then Inr ([a], tl ts')
                else if take 1 ts' = [TComma]
                then (case parse_args n (tl ts') of
                        Inl e \<Rightarrow> Inl e
                      | Inr (args, r) \<Rightarrow> Inr (a # args, r))
                else Inl SyntaxError))"
  by pat_completeness auto

termination
  by (relation "measure (\<lambda>x. case x of
        Inl (Inl (Inl (n, ts))) \<Rightarrow> n
      | Inl (Inl (Inr (n, l, ts))) \<Rightarrow> n
      | Inl (Inr (Inl (n, ts))) \<Rightarrow> n
      | Inl (Inr (Inr (n, l, ts))) \<Rightarrow> n
      | Inr (Inl (Inl (n, ts))) \<Rightarrow> n
      | Inr (Inl (Inr (n, l, ts))) \<Rightarrow> n
      | Inr (Inr (Inl (n, ts))) \<Rightarrow> n
      | Inr (Inr (Inr (n, ts))) \<Rightarrow> n)") auto

definition compile_fuel :: nat where
  "compile_fuel = 100"

text \<open>
  \<^verbatim>\<open>compile(expression, '<dune expression>', 'eval')\<close> on the fragment. Leading blanks are
  left out of the model (Python versions differ on them).
\<close>

definition compile_expr :: "string \<Rightarrow> exc + expr" where
  "compile_expr expression =
     (if take 1 expression = '' '' then Inl OutsideModel
      else (case lex LStart expression of
              Inl e \<Rightarrow> Inl e
            | Inr ts \<Rightarrow>
                (case parse_sum compile_fuel ts of
                   Inl e \<Rightarrow> Inl e
                 | Inr (x, rest) \<Rightarrow>
                     (if rest = [] then Inr x
                      else if take 1 rest = [TComma] then Inl OutsideModel
                      else Inl SyntaxError))))"

subsection \<open>Evaluation\<close>

text \<open>
  The state an evaluation can reach: the dict \<^verbatim>\<open>ExpressionParameterFunctional.functions\<close>,
  a class attribute (lines 77 to 81) and so one object for all instances, and the
  namespace of the interpreter's builtins module.
\<close>

text \<open>(The field is \<open>functions'\<close> because \<open>functions\<close> is a reserved word here.)\<close>

record pystate =
  functions' :: "string \<rightharpoonup> pyval"
  builtins :: "string \<rightharpoonup> pyval"

text \<open>The keys of \<^verbatim>\<open>functions\<close>, each bound to the numpy function of that name.\<close>

definition whitelist :: "string list" where
  "whitelist =
     [''sin'', ''cos'', ''tan'', ''arcsin'', ''arccos'', ''arctan'',
      ''sinh'', ''cosh'', ''tanh'', ''arcsinh'', ''arccosh'', ''arctanh'',
      ''exp'', ''exp2'', ''log'', ''log2'', ''log10'',
      ''min'', ''minimum'', ''max'', ''maximum'']"

definition functions_dict :: "string \<rightharpoonup> pyval" where
  "functions_dict = map_of (map (\<lambda>k. (k, VFun (''numpy.'' @ k))) whitelist)"

text \<open>
  Some of the names every CPython binds in its builtins module. The table is not the
  whole module; the theorems below that hold for every state do not depend on it.
\<close>

definition builtins_dict :: "string \<rightharpoonup> pyval" where
  "builtins_dict =
     map_of (map (\<lambda>k. (k, VFun k))
       [''abs'', ''__import__'', ''eval'', ''getattr'', ''globals'', ''open''])"

text \<open>The state when the module has been imported and nothing evaluated yet.\<close>

definition initial_state :: pystate where
  "initial_state = \<lparr> functions' = functions_dict, builtins = builtins_dict \<rparr>"

text \<open>
  Integer arithmetic is exact in Python, and in numpy whatever the element type as long
  as operands and results are small; beyond that the model makes no statement.
\<close>

definition in_range :: "int \<Rightarrow> bool" where
  "in_range v = (- (2 ^ 31) < v \<and> v < 2 ^ 31)"

definition checked_array :: "nat list \<Rightarrow> int list \<Rightarrow> int list \<Rightarrow> exc + pyval" where
  "checked_array shape operands results =
     (if list_all in_range operands \<and> list_all in_range results
      then Inr (VArr shape results) else Inl OutsideModel)"

definition arith :: "binop \<Rightarrow> int \<Rightarrow> int \<Rightarrow> int" where
  "arith op x y = (case op of Add \<Rightarrow> x + y | Sub \<Rightarrow> x - y | Mult \<Rightarrow> x * y)"

text \<open>
  \<^verbatim>\<open>a + b\<close>, \<^verbatim>\<open>a - b\<close>, \<^verbatim>\<open>a * b\<close> on numbers and arrays: a number with an array acts on
  every element, two arrays of one shape act element by element. Broadcasting between
  different shapes and operands of other types are not modelled.
\<close>

definition binary_op :: "binop \<Rightarrow> pyval \<Rightarrow> pyval \<Rightarrow> exc + pyval" where
  "binary_op op a b =
     (case a of
        VInt x \<Rightarrow>
          (case b of
             VInt y \<Rightarrow> Inr (VInt (arith op x y))
           | VArr shape ys \<Rightarrow> checked_array shape (x # ys) (map (arith op x) ys)
           | _ \<Rightarrow> Inl OutsideModel)
      | VArr shape xs \<Rightarrow>
          (case b of
             VInt y \<Rightarrow> checked_array shape (y # xs) (map (\<lambda>x. arith op x y) xs)
           | VArr shape' ys \<Rightarrow>
               (if shape = shape' \<and> length xs = length ys
                then checked_array shape (xs @ ys) (map2 (arith op) xs ys)
                else Inl OutsideModel)
           | _ \<Rightarrow> Inl OutsideModel)
      | _ \<Rightarrow> Inl OutsideModel)"

definition unary_op :: "unop \<Rightarrow> pyval \<Rightarrow> exc + pyval" where
  "unary_op op a =
     (case a of
        VInt x \<Rightarrow> Inr (VInt (case op of UAdd \<Rightarrow> x | USub \<Rightarrow> - x))
      | VArr shape xs \<Rightarrow>
          checked_array shape xs (map (\<lambda>x. case op of UAdd \<Rightarrow> x | USub \<Rightarrow> - x) xs)
      | _ \<Rightarrow> Inl OutsideModel)"

text \<open>
  A call. Two builtins are modelled: \<^verbatim>\<open>abs\<close> on a number or an array, and
  \<^verbatim>\<open>__import__('os')\<close>, which returns that module. What the numpy functions compute is
  floating point and not modelled. Calling an object that is no function is a TypeError.
\<close>

definition call_function :: "pyval \<Rightarrow> pyval list \<Rightarrow> exc + pyval" where
  "call_function f args =
     (case f of
        VFun n \<Rightarrow>
          (if n = ''abs''
           then (case args of
                   [VInt x] \<Rightarrow> Inr (VInt \<bar>x\<bar>)
                 | [VArr shape xs] \<Rightarrow> checked_array shape xs (map abs xs)
                 | _ \<Rightarrow> Inl OutsideModel)
           else if n = ''__import__''
           then (case args of
                   [VStr m] \<Rightarrow> (if m = ''os'' then Inr (VModule ''os'') else Inl OutsideModel)
                 | _ \<Rightarrow> Inl OutsideModel)
           else Inl OutsideModel)
      | _ \<Rightarrow> Inl TypeError)"

text \<open>
  A name in code compiled for \<^verbatim>\<open>eval\<close> is looked up in the locals, then in the globals,
  then in the builtins that the globals name under \<^verbatim>\<open>__builtins__\<close>; NameError if it
  is in none.
\<close>

definition load_name :: "pystate \<Rightarrow> params \<Rightarrow> string \<Rightarrow> exc + pyval" where
  "load_name s mu n =
     (case mu n of
        Some v \<Rightarrow> Inr v
      | None \<Rightarrow>
          (case functions' s n of
             Some v \<Rightarrow> Inr v
           | None \<Rightarrow>
               (if functions' s ''__builtins__'' = Some (VModule ''__builtin__'')
                then (case builtins s n of Some v \<Rightarrow> Inr v | None \<Rightarrow> Inl (NameError n))
                else Inl OutsideModel)))"

text \<open>
  The value of an expression: operands left to right, the callee before its arguments,
  the first exception ends the evaluation. Attributes of objects are not modelled.
\<close>

fun eval_expr :: "pystate \<Rightarrow> params \<Rightarrow> expr \<Rightarrow> exc + pyval"
and eval_args :: "pystate \<Rightarrow> params \<Rightarrow> expr list \<Rightarrow> exc + pyval list"
where
  "eval_expr s mu (Num n) = Inr (VInt n)"
| "eval_expr s mu (Str t) = Inr (VStr t)"
| "eval_expr s mu (Name n) = load_name s mu n"
| "eval_expr s mu (BinOp l op r) =
     (case eval_expr s mu l of
        Inl e \<Rightarrow> Inl e
      | Inr a \<Rightarrow> (case eval_expr s mu r of Inl e \<Rightarrow> Inl e | Inr b \<Rightarrow> binary_op op a b))"
| "eval_expr s mu (UnaryOp op x) =
     (case eval_expr s mu x of Inl e \<Rightarrow> Inl e | Inr a \<Rightarrow> unary_op op a)"
| "eval_expr s mu (Call f args) =
     (case eval_expr s mu f of
        Inl e \<Rightarrow> Inl e
      | Inr fv \<Rightarrow>
          (case eval_args s mu args of Inl e \<Rightarrow> Inl e | Inr vs \<Rightarrow> call_function fv vs))"
| "eval_expr s mu (Attribute x a) =
     (case eval_expr s mu x of Inl e \<Rightarrow> Inl e | Inr v \<Rightarrow> Inl OutsideModel)"
| "eval_args s mu [] = Inr []"
| "eval_args s mu (x # xs) =
     (case eval_expr s mu x of
        Inl e \<Rightarrow> Inl e
      | Inr v \<Rightarrow> (case eval_args s mu xs of Inl e \<Rightarrow> Inl e | Inr vs \<Rightarrow> Inr (v # vs)))"

text \<open>
  \<^verbatim>\<open>eval(code, globals, locals)\<close> with \<^verbatim>\<open>globals\<close> the dict \<^verbatim>\<open>functions\<close>: if the dict
  has no key \<^verbatim>\<open>__builtins__\<close>, \<^verbatim>\<open>eval\<close> first stores a reference to the builtins under
  that key, in the dict it was given; then the code runs.
\<close>

definition py_eval :: "expr \<Rightarrow> params \<Rightarrow> pystate \<Rightarrow> (exc + pyval) \<times> pystate" where
  "py_eval code mu s =
     (let s' = (if functions' s ''__builtins__'' = None
                then s\<lparr> functions' := (functions' s)(''__builtins__'' \<mapsto> VModule ''__builtin__'') \<rparr>
                else s)
      in (eval_expr s' mu code, s'))"

section \<open>ExpressionParameterFunctional\<close>


record ExpressionParameterFunctional = "pystate GenericParameterFunctional" +
  expression :: string

text \<open>
  \<^verbatim>\<open>__init__\<close>, lines 83 to 87: compile, wrap the code in a mapping that evaluates it with
  \<^verbatim>\<open>self.functions\<close> as globals and the parameter as locals, and construct the generic
  functional with this mapping.
\<close>

definition ExpressionParameterFunctional_init ::
  "string \<Rightarrow> (string \<times> shape_arg) list \<Rightarrow> string option
     \<Rightarrow> exc + ExpressionParameterFunctional" where
  "ExpressionParameterFunctional_init expression' parameter_type' name' =
     (case compile_expr expression' of
        Inl e \<Rightarrow> Inl e
      | Inr code \<Rightarrow>
          Inr (GenericParameterFunctional.extend
                 (GenericParameterFunctional_init (\<lambda>mu. py_eval code mu) parameter_type' name')
                 (ExpressionParameterFunctional.fields expression')))"

text \<open>\<^verbatim>\<open>__getstate__\<close>, lines 92 and 93.\<close>

definition ExpressionParameterFunctional_getstate ::
  "ExpressionParameterFunctional \<Rightarrow> string \<times> ptype \<times> string option" where
  "ExpressionParameterFunctional_getstate self = (expression self, parameter_type self, name self)"

text \<open>
  \<^verbatim>\<open>__setstate__\<close>, lines 95 and 96: \<^verbatim>\<open>self.__init__(*state)\<close>. The stored parameter type
  holds tuples, which the constructor takes as they are.
\<close>

definition ExpressionParameterFunctional_setstate ::
  "string \<times> ptype \<times> string option \<Rightarrow> exc + ExpressionParameterFunctional" where
  "ExpressionParameterFunctional_setstate state =
     (case state of
        (expression', parameter_type', name') \<Rightarrow>
          ExpressionParameterFunctional_init expression'
            (map (\<lambda>(k, shape). (k, STuple shape)) parameter_type') name')"

section \<open>The matrix loader\<close>

text \<open>
  \<^verbatim>\<open>load_matrix\<close> of \<^verbatim>\<open>src/pymor/tools/io.py\<close>. What a loader returns is an array, a
  sparse matrix (known by its storage format) or some other object.
\<close>

datatype matobj = NdArray "nat list" "int list" | SparseMatrix string | OtherObject string











subsection \<open>The extension of a path\<close>

text \<open>\<^verbatim>\<open>s.split(sep)\<close>: the pieces of \<open>s\<close> between the separators, at least one piece.\<close>

fun split_on :: "char \<Rightarrow> string \<Rightarrow> string list" where
  "split_on sep [] = [[]]"
| "split_on sep (c # cs) =
     (if c = sep then [] # split_on sep cs
      else (case split_on sep cs of [] \<Rightarrow> [[c]] | p # ps \<Rightarrow> (c # p) # ps))"

text \<open>
  \<^verbatim>\<open>Path(path).name\<close> on a POSIX system: the last component of the path, components
  being separated by \<^verbatim>\<open>/\<close> and empty components and \<^verbatim>\<open>.\<close> left out; the empty string
  if there is none.
\<close>

definition path_name :: "string \<Rightarrow> string" where
  "path_name path =
     (case rev (filter (\<lambda>x. x \<noteq> [] \<and> x \<noteq> ''.'') (split_on CHR ''/'' path)) of
        [] \<Rightarrow> []
      | x # xs \<Rightarrow> x)"

text \<open>
  \<^verbatim>\<open>Path(path).suffixes\<close>: none if the name ends with a dot; else the name without its
  leading dots is split at the dots, and every piece but the first is a suffix.
\<close>

definition suffixes :: "string \<Rightarrow> string list" where
  "suffixes path =
     (let name = path_name path
      in if name \<noteq> [] \<and> last name = CHR ''.'' then []
         else map (\<lambda>x. CHR ''.'' # x) (tl (split_on CHR ''.'' (dropWhile (\<lambda>c. c = CHR ''.'') name))))"

text \<open>\<^verbatim>\<open>s.lower()\<close> on ASCII: each capital letter becomes the small one.\<close>

definition lower_char :: "char \<Rightarrow> char" where
  "lower_char c =
     (case map_of (zip ''ABCDEFGHIJKLMNOPQRSTUVWXYZ'' ''abcdefghijklmnopqrstuvwxyz'') c of
        None \<Rightarrow> c
      | Some l \<Rightarrow> l)"

definition lower :: "string \<Rightarrow> string" where
  "lower s = map lower_char s"

text \<open>
  Lines 91 to 98 of \<^verbatim>\<open>load_matrix\<close>. \<^verbatim>\<open>path.suffixes[-1]\<close> in the second condition is
  evaluated also when there is no suffix, and raises IndexError then.
\<close>

definition detect_extension :: "string \<Rightarrow> exc + string option" where
  "detect_extension path =
     (let sfx = suffixes path; suffix_count = length sfx
      in if suffix_count \<noteq> 0 \<and> length (last sfx) = 4
         then Inr (Some (lower (last sfx)))
         else if sfx = [] then Inl IndexError
         else if lower (last sfx) = ''.gz'' \<and> suffix_count \<ge> 2
                 \<and> length (last (butlast sfx)) = 4
         then Inr (Some (lower (last (butlast sfx) @ ''.'' @ last sfx)))
         else Inr None)"




section \<open>Constructing and evaluating in one step\<close>

text \<open>
  \<^verbatim>\<open>ProjectionParameterFunctional(parameter_name, parameter_shape, coordinates, name).evaluate(mu)\<close>:
  the exception of the constructor, if it raises one, else what \<^verbatim>\<open>evaluate\<close> returns
  or raises.
\<close>

definition project ::
  "pyver \<Rightarrow> string \<Rightarrow> shape_arg \<Rightarrow> pyindex option \<Rightarrow> string option \<Rightarrow> params option
     \<Rightarrow> exc + pyval" where
  "project pv parameter_name' parameter_shape coordinates' name' mu =
     (case ProjectionParameterFunctional_init pv parameter_name' parameter_shape coordinates' name' of
        Inl e \<Rightarrow> Inl e
      | Inr self \<Rightarrow> ProjectionParameterFunctional_evaluate self mu)"


section \<open>Properties of the projection functional\<close>

text \<open>Validation of a conforming value succeeds and keeps the binding of every declared name.\<close>

lemma parse_entries_conforms:
  "conforms pt v \<Longrightarrow> \<exists>m. parse_entries pt v = Inr m \<and> (\<forall>k \<in> fst ` set pt. m k = v k)"
proof (induction pt)
  case Nil
  show ?case by simp
next
  case (Cons entry pt)
  obtain k shape where entry: "entry = (k, shape)" by (cases entry)
  from Cons.prems entry obtain data where vk: "v k = Some (VArr shape data)" and rest: "conforms pt v"
    by (auto simp: conforms_def split: option.splits pyval.splits)
  from Cons.IH [OF rest] obtain m where m: "parse_entries pt v = Inr m"
    and agree: "\<forall>k \<in> fst ` set pt. m k = v k" by blast
  have "parse_entries (entry # pt) v = Inr (m(k \<mapsto> VArr shape data))"
    by (simp add: entry vk m normalize_value_def shape_of_def)
  moreover have "\<forall>j \<in> fst ` set (entry # pt). (m(k \<mapsto> VArr shape data)) j = v j"
    using agree vk entry by auto
  ultimately show ?case by blast
qed

text \<open>What a successful construction stores.\<close>
lemma init_fields:
  "ProjectionParameterFunctional_init pv pname pshape coords nm = Inr self \<Longrightarrow>
   parameter_type self = [(pname, normalize_shape pshape)] \<and> parameter_name self = pname
   \<and> coordinates self = coords \<and> name self = nm \<and> locked self"
  by (auto simp: ProjectionParameterFunctional_init_def Let_def build_parameter_type_def
        normalize_shape_def split: if_splits option.splits sum.splits)

text \<open>The value of \<^verbatim>\<open>evaluate\<close> on a conforming parameter, shared by the results below.\<close>
lemma projection_evaluate_value:
  assumes init: "ProjectionParameterFunctional_init pv pname pshape coords nm = Inr self"
      and conf: "conforms (parameter_type self) v"
  shows "\<exists>a. v pname = Some a \<and>
           ProjectionParameterFunctional_evaluate self (Some v) =
             (case coords of None \<Rightarrow> Inr a | Some c \<Rightarrow> getitem a c)"
proof -
  from init_fields [OF init] have pt: "parameter_type self = [(pname, normalize_shape pshape)]"
    and pn: "parameter_name self = pname" and co: "coordinates self = coords" by simp_all
  from parse_entries_conforms [OF conf] obtain m where m: "parse_entries (parameter_type self) v = Inr m"
    and agree: "\<forall>k \<in> fst ` set (parameter_type self). m k = v k" by blast
  from agree pt have mk: "m pname = v pname" by simp
  from conf pt obtain a where a: "v pname = Some a"
    by (auto simp: conforms_def split: option.splits)
  have "ProjectionParameterFunctional_evaluate self (Some v) =
          (case coords of None \<Rightarrow> Inr a | Some c \<Rightarrow> getitem a c)"
    by (simp add: ProjectionParameterFunctional_evaluate_def parse_parameter_def m pn co
          dict_get_def mk a split: option.splits)
  with a show ?thesis by blast
qed

text \<open>
  C5. For every projection functional and every value \<open>v\<close> that conforms to its
  parameter type, \<^verbatim>\<open>evaluate(v)\<close> is \<^verbatim>\<open>v[parameter_name]\<close> when \<^verbatim>\<open>coordinates\<close> is unset and
  \<^verbatim>\<open>v[parameter_name][coordinates]\<close> otherwise (the IndexError of that indexing
  included). \<^verbatim>\<open>evaluate\<close> is a function of the functional and of \<open>v\<close>, and its only
  outcome is the value returned: it is deterministic and writes to nothing.
\<close>
theorem projection_evaluate_selects:
  assumes init: "ProjectionParameterFunctional_init pv pname pshape coords nm = Inr self"
      and conf: "conforms (parameter_type self) v"
  shows "\<exists>a. v pname = Some a \<and>
           ProjectionParameterFunctional_evaluate self (Some v) =
             (case coords of None \<Rightarrow> Inr a | Some c \<Rightarrow> getitem a c)"
  using projection_evaluate_value [OF init conf] .

text \<open>Shape \<open>(3,)\<close>, coordinates \<open>(1,)\<close>: the element at index 1 of \<open>[10, 20, 30]\<close>.\<close>
theorem projection_evaluate_selects_witness:
  "ProjectionParameterFunctional_init Py3 ''x'' (STuple [3]) (Some (ITuple [1])) None =
     Inr \<lparr> name = None, parameter_type = [(''x'', [3])], locked = True,
           parameter_name = ''x'', coordinates = Some (ITuple [1]) \<rparr>
   \<and> conforms [(''x'', [3])] (map_of [(''x'', VArr [3] [10, 20, 30])])
   \<and> ProjectionParameterFunctional_evaluate
        \<lparr> name = None, parameter_type = [(''x'', [3])], locked = True,
          parameter_name = ''x'', coordinates = Some (ITuple [1]) \<rparr>
        (Some (map_of [(''x'', VArr [3] [10, 20, 30])])) = Inr (VArr [] [20])"
proof -
  let ?self = "\<lparr> name = None, parameter_type = [(''x'', [3])], locked = True,
           parameter_name = ''x'', coordinates = Some (ITuple [1]) \<rparr>"
  let ?v = "map_of [(''x'', VArr [3] [10, 20, 30])]"
  have init: "ProjectionParameterFunctional_init Py3 ''x'' (STuple [3]) (Some (ITuple [1])) None = Inr ?self"
    by (simp add: ProjectionParameterFunctional_init_def normalize_shape_def py_lt_def
          build_parameter_type_def)
  have conf: "conforms (parameter_type ?self) ?v"
    by (simp add: conforms_def)
  from projection_evaluate_selects [OF init conf]
  have "ProjectionParameterFunctional_evaluate ?self (Some ?v) = Inr (VArr [] [20])"
    by (simp add: getitem_def getitem_int_def)
  with init conf show ?thesis by simp
qed

text \<open>
  The constructor tests the sum of the shape's entries, not the number of elements. More
  than one element implies a sum above 1, so a shape with more than one element does need
  coordinates.
\<close>
lemma prod_list_gt1_sum_list_gt1:
  fixes shape :: "nat list"
  shows "prod_list shape > 1 \<Longrightarrow> sum_list shape > 1"
proof (induction shape)
  case Nil
  then show ?case by simp
next
  case (Cons n shape)
  from Cons.prems have pos: "n \<ge> 1" "prod_list shape \<ge> 1"
    by (auto simp: Suc_le_eq intro: Nat.gr0I)
  show ?case
  proof (cases "n = 1")
    case True
    with Cons.prems have "prod_list shape > 1" by simp
    with Cons.IH have "sum_list shape > 1" by simp
    then show ?thesis by simp
  next
    case False
    with pos have "n \<ge> 2" by simp
    then show ?thesis by simp
  qed
qed

lemma projection_init_requires_coordinates:
  "prod_list (normalize_shape pshape) > 1 \<Longrightarrow>
   ProjectionParameterFunctional_init pv pname pshape None nm = Inl AssertionError"
  using prod_list_gt1_sum_list_gt1 [of "normalize_shape pshape"]
  by (simp add: ProjectionParameterFunctional_init_def Let_def)

text \<open>
  C3. The constructor is to fail, for a shape with more than one element, unless
  \<^verbatim>\<open>coordinates\<close> is a valid index below the shape's extent. The assertion of line 38
  compares \<^verbatim>\<open>coordinates\<close> with the shape tuple as a whole, and that comparison is not
  the range check: for shape \<open>(2, 2)\<close> the tuple \<open>(0, 5)\<close> is smaller than \<open>(2, 2)\<close>
  in the lexicographic order, the constructor succeeds under every interpreter and
  \<^verbatim>\<open>evaluate\<close> then raises IndexError; an integer is smaller than any tuple under
  Python 2, so \<open>coordinates = 5\<close> is accepted for shape \<open>(3,)\<close>; and under Python 3 the
  comparison of an integer with a tuple raises TypeError, so \<open>coordinates = 1\<close> is
  rejected for shape \<open>(3,)\<close>.
\<close>
theorem projection_init_coordinates_unchecked:
  "ProjectionParameterFunctional_init pv ''x'' (STuple [2, 2]) (Some (ITuple [0, 5])) None =
     Inr \<lparr> name = None, parameter_type = [(''x'', [2, 2])], locked = True,
           parameter_name = ''x'', coordinates = Some (ITuple [0, 5]) \<rparr>
   \<and> project pv ''x'' (STuple [2, 2]) (Some (ITuple [0, 5])) None
         (Some (map_of [(''x'', VArr [2, 2] [1, 2, 3, 4])])) = Inl IndexError
   \<and> ProjectionParameterFunctional_init Py2 ''x'' (STuple [3]) (Some (IInt 5)) None =
     Inr \<lparr> name = None, parameter_type = [(''x'', [3])], locked = True,
           parameter_name = ''x'', coordinates = Some (IInt 5) \<rparr>
   \<and> ProjectionParameterFunctional_init Py3 ''x'' (STuple [3]) (Some (IInt 1)) None = Inl TypeError"
  by (simp add: project_def ProjectionParameterFunctional_init_def normalize_shape_def py_lt_def
        build_parameter_type_def ProjectionParameterFunctional_evaluate_def parse_parameter_def
        normalize_value_def shape_of_def dict_get_def getitem_def getitem_int_def)

text \<open>
  Against C4 as stated: for the shapes \<open>(1,)\<close> and \<open>()\<close> the result of \<^verbatim>\<open>evaluate\<close>
  with \<open>coordinates = 0\<close> differs from the result without coordinates.
\<close>
theorem projection_coordinates_used_counterexample:
  "project Py2 ''x'' (STuple [1]) (Some (IInt 0)) None (Some (map_of [(''x'', VArr [1] [7])]))
     = Inr (VArr [] [7])
   \<and> project Py3 ''x'' (STuple [1]) (Some (IInt 0)) None (Some (map_of [(''x'', VArr [1] [7])]))
     = Inr (VArr [] [7])
   \<and> project Py3 ''x'' (STuple [1]) None None (Some (map_of [(''x'', VArr [1] [7])]))
     = Inr (VArr [1] [7])
   \<and> project Py2 ''x'' (SNum 0) (Some (IInt 0)) None (Some (map_of [(''x'', VArr [] [7])]))
     = Inl IndexError
   \<and> project Py3 ''x'' (SNum 0) (Some (IInt 0)) None (Some (map_of [(''x'', VArr [] [7])]))
     = Inl IndexError
   \<and> project Py3 ''x'' (SNum 0) None None (Some (map_of [(''x'', VArr [] [7])]))
     = Inr (VArr [] [7])"
  by (simp add: project_def ProjectionParameterFunctional_init_def normalize_shape_def py_lt_def
        build_parameter_type_def ProjectionParameterFunctional_evaluate_def parse_parameter_def
        normalize_value_def shape_of_def dict_get_def getitem_def getitem_int_def)

text \<open>
  C4, amended. When the entries of the shape sum to at most 1 (the shapes \<open>()\<close> and
  \<open>(1,)\<close> among them), the constructor does not check \<^verbatim>\<open>coordinates\<close>: it succeeds
  for any value and stores it. \<^verbatim>\<open>evaluate\<close> uses what is stored: on a conforming \<open>v\<close> it
  returns \<^verbatim>\<open>v[parameter_name]\<close> if \<^verbatim>\<open>coordinates\<close> is unset and
  \<^verbatim>\<open>v[parameter_name][coordinates]\<close> otherwise.
\<close>
theorem projection_small_shape_coordinates:
  assumes small: "sum_list (normalize_shape pshape) \<le> 1"
  shows "\<exists>self. ProjectionParameterFunctional_init pv pname pshape coords nm = Inr self
           \<and> coordinates self = coords
           \<and> (\<forall>v. conforms (parameter_type self) v \<longrightarrow>
                 (\<exists>a. v pname = Some a \<and>
                    ProjectionParameterFunctional_evaluate self (Some v) =
                      (case coords of None \<Rightarrow> Inr a | Some c \<Rightarrow> getitem a c)))"
proof -
  from small obtain self where
    init: "ProjectionParameterFunctional_init pv pname pshape coords nm = Inr self"
    by (simp add: ProjectionParameterFunctional_init_def Let_def)
  from init_fields [OF init] have "coordinates self = coords" by simp
  moreover have "\<forall>v. conforms (parameter_type self) v \<longrightarrow>
                 (\<exists>a. v pname = Some a \<and>
                    ProjectionParameterFunctional_evaluate self (Some v) =
                      (case coords of None \<Rightarrow> Inr a | Some c \<Rightarrow> getitem a c))"
    using projection_evaluate_value [OF init] by blast
  ultimately show ?thesis using init by blast
qed

theorem projection_small_shape_coordinates_witness:
  "sum_list (normalize_shape (STuple [1])) \<le> 1
   \<and> ProjectionParameterFunctional_init Py3 ''x'' (STuple [1]) (Some (IInt 0)) None =
       Inr \<lparr> name = None, parameter_type = [(''x'', [1])], locked = True,
             parameter_name = ''x'', coordinates = Some (IInt 0) \<rparr>
   \<and> conforms [(''x'', [1])] (map_of [(''x'', VArr [1] [7])])
   \<and> ProjectionParameterFunctional_evaluate
        \<lparr> name = None, parameter_type = [(''x'', [1])], locked = True,
          parameter_name = ''x'', coordinates = Some (IInt 0) \<rparr>
        (Some (map_of [(''x'', VArr [1] [7])])) = Inr (VArr [] [7])"
proof -
  let ?self = "\<lparr> name = None, parameter_type = [(''x'', [1])], locked = True,
             parameter_name = ''x'', coordinates = Some (IInt 0) \<rparr>"
  let ?v = "map_of [(''x'', VArr [1] [7])]"
  have small: "sum_list (normalize_shape (STuple [1])) \<le> 1"
    by (simp add: normalize_shape_def)
  have init: "ProjectionParameterFunctional_init Py3 ''x'' (STuple [1]) (Some (IInt 0)) None = Inr ?self"
    by (simp add: ProjectionParameterFunctional_init_def normalize_shape_def build_parameter_type_def)
  have conf: "conforms (parameter_type ?self) ?v"
    by (simp add: conforms_def)
  from projection_small_shape_coordinates [OF small, of Py3 "''x''" "Some (IInt 0)" None]
  obtain self where self: "ProjectionParameterFunctional_init Py3 ''x'' (STuple [1]) (Some (IInt 0)) None = Inr self"
    and ev: "\<forall>v. conforms (parameter_type self) v \<longrightarrow>
               (\<exists>a. v ''x'' = Some a \<and>
                  ProjectionParameterFunctional_evaluate self (Some v) =
                    (case Some (IInt 0) of None \<Rightarrow> Inr a | Some c \<Rightarrow> getitem a c))"
    by blast
  from self init have eq: "self = ?self" by simp
  from ev conf obtain a where a: "?v ''x'' = Some a"
    and val: "ProjectionParameterFunctional_evaluate ?self (Some ?v) = getitem a (IInt 0)"
    unfolding eq by auto
  from a have "a = VArr [1] [7]" by simp
  with val have "ProjectionParameterFunctional_evaluate ?self (Some ?v) = Inr (VArr [] [7])"
    by (simp add: getitem_def getitem_int_def)
  with small init conf show ?thesis by simp
qed

section \<open>Properties of the generic functional\<close>

text \<open>
  C6. \<^verbatim>\<open>evaluate\<close> of a generic functional validates the value against the declared
  parameter type first. If validation fails, that error is the outcome and the state
  is as before, whatever the mapping is: the mapping has not run. If validation yields
  \<open>v\<close>, the outcome and the new state are exactly those of \<open>mapping v\<close>, an exception of
  the mapping included, unchanged.
\<close>
theorem generic_evaluate_validates_then_maps:
  "(parse_parameter (build_parameter_type d) mu = Inl e \<longrightarrow>
      GenericParameterFunctional_evaluate (GenericParameterFunctional_init m d nm) mu s = (Inl e, s))
   \<and> (parse_parameter (build_parameter_type d) mu = Inr v \<longrightarrow>
      GenericParameterFunctional_evaluate (GenericParameterFunctional_init m d nm) mu s = m v s)"
  by (simp add: GenericParameterFunctional_evaluate_def GenericParameterFunctional_init_def)

text \<open>
  A mapping that counts its calls in the state and raises: with the declared name
  missing, the outcome is TypeMismatch and the count stays 0; with a conforming value
  the mapping's own exception comes out and the count is 1.
\<close>
theorem generic_evaluate_validates_then_maps_witness:
  "parse_parameter (build_parameter_type [(''x'', SNum 0)]) (Some (map_of [(''y'', VInt 1)]))
     = Inl (TypeMismatch ''x'')
   \<and> GenericParameterFunctional_evaluate
        (GenericParameterFunctional_init (\<lambda>v s. (Inl (OtherError ''boom''), Suc s))
           [(''x'', SNum 0)] None)
        (Some (map_of [(''y'', VInt 1)])) (0::nat) = (Inl (TypeMismatch ''x''), 0)
   \<and> parse_parameter (build_parameter_type [(''x'', SNum 0)]) (Some (map_of [(''x'', VInt 1)]))
     = Inr (Map.empty(''x'' \<mapsto> VArr [] [1]))
   \<and> GenericParameterFunctional_evaluate
        (GenericParameterFunctional_init (\<lambda>v s. (Inl (OtherError ''boom''), Suc s))
           [(''x'', SNum 0)] None)
        (Some (map_of [(''x'', VInt 1)])) (0::nat) = (Inl (OtherError ''boom''), Suc 0)"
proof -
  let ?m = "\<lambda>(v::params) (s::nat). (Inl (OtherError ''boom'') :: exc + pyval, Suc s)"
  let ?d = "[(''x'', SNum 0)]"
  have bad: "parse_parameter (build_parameter_type ?d) (Some (map_of [(''y'', VInt 1)]))
     = Inl (TypeMismatch ''x'')"
    by (simp add: build_parameter_type_def normalize_shape_def parse_parameter_def)
  have good: "parse_parameter (build_parameter_type ?d) (Some (map_of [(''x'', VInt 1)]))
     = Inr (Map.empty(''x'' \<mapsto> VArr [] [1]))"
    by (simp add: build_parameter_type_def normalize_shape_def parse_parameter_def
          normalize_value_def shape_of_def)
  from generic_evaluate_validates_then_maps
         [of ?d "Some (map_of [(''y'', VInt 1)])" "TypeMismatch ''x''" ?m None 0] bad
  have a: "GenericParameterFunctional_evaluate (GenericParameterFunctional_init ?m ?d None)
        (Some (map_of [(''y'', VInt 1)])) (0::nat) = (Inl (TypeMismatch ''x''), 0)"
    by blast
  from generic_evaluate_validates_then_maps
         [of ?d "Some (map_of [(''x'', VInt 1)])" _ ?m None 0 "Map.empty(''x'' \<mapsto> VArr [] [1])"] good
  have b: "GenericParameterFunctional_evaluate (GenericParameterFunctional_init ?m ?d None)
        (Some (map_of [(''x'', VInt 1)])) (0::nat) = (Inl (OtherError ''boom''), Suc 0)"
    by blast
  from bad a good b show ?thesis by blast
qed

section \<open>Properties of the expression functional\<close>

text \<open>Building a parameter type from an already built one changes nothing.\<close>

lemma build_parameter_type_idem:
  "build_parameter_type (map (\<lambda>(k, shape). (k, STuple shape)) (build_parameter_type d))
     = build_parameter_type d"
  by (induction d) (auto simp: build_parameter_type_def normalize_shape_def)

text \<open>A successful construction has compiled the expression, and stores this.\<close>
lemma expression_init_fields:
  assumes "ExpressionParameterFunctional_init e d nm = Inr f"
  shows "\<exists>code. compile_expr e = Inr code
           \<and> f = \<lparr> name = nm, parameter_type = build_parameter_type d, locked = True,
                   mapping = (\<lambda>mu. py_eval code mu), expression = e \<rparr>"
  using assms
  by (auto simp: ExpressionParameterFunctional_init_def GenericParameterFunctional_init_def
        GenericParameterFunctional.extend_def ExpressionParameterFunctional.fields_def
        split: sum.splits)

text \<open>
  C2. The persisted state of an expression functional is the tuple of its expression,
  its parameter type and its name. Restoring calls the constructor on that tuple, which
  compiles and validates again, and yields a functional whose \<^verbatim>\<open>evaluate\<close> agrees
  with the original's on every input and in every state.
\<close>
theorem expression_state_roundtrip:
  assumes init: "ExpressionParameterFunctional_init e d nm = Inr f"
  shows "ExpressionParameterFunctional_getstate f = (e, build_parameter_type d, nm)
         \<and> ExpressionParameterFunctional_setstate (ExpressionParameterFunctional_getstate f)
             = ExpressionParameterFunctional_init e (map (\<lambda>(k, shape). (k, STuple shape)) (build_parameter_type d)) nm
         \<and> (\<exists>g. ExpressionParameterFunctional_setstate (ExpressionParameterFunctional_getstate f) = Inr g
                \<and> (\<forall>mu s. GenericParameterFunctional_evaluate g mu s
                            = GenericParameterFunctional_evaluate f mu s))"
proof -
  from expression_init_fields [OF init] obtain code where code: "compile_expr e = Inr code"
    and f: "f = \<lparr> name = nm, parameter_type = build_parameter_type d, locked = True,
                   mapping = (\<lambda>mu. py_eval code mu), expression = e \<rparr>" by blast
  have st: "ExpressionParameterFunctional_getstate f = (e, build_parameter_type d, nm)"
    by (simp add: f ExpressionParameterFunctional_getstate_def)
  have re: "ExpressionParameterFunctional_setstate (e, build_parameter_type d, nm)
             = ExpressionParameterFunctional_init e (map (\<lambda>(k, shape). (k, STuple shape)) (build_parameter_type d)) nm"
    by (simp add: ExpressionParameterFunctional_setstate_def)
  have "ExpressionParameterFunctional_init e (map (\<lambda>(k, shape). (k, STuple shape)) (build_parameter_type d)) nm = Inr f"
    by (simp add: ExpressionParameterFunctional_init_def code GenericParameterFunctional_init_def
          GenericParameterFunctional.extend_def ExpressionParameterFunctional.fields_def
          build_parameter_type_idem f)
  with st re show ?thesis by simp
qed

text \<open>Expressions used as examples, compiled.\<close>
lemma compile_2x: "compile_expr ''2*x'' = Inr (BinOp (Num 2) Mult (Name ''x''))"
  by code_simp

text \<open>
  C7. If the expression string is not syntactically valid, so that compiling it raises
  SyntaxError, the constructor raises that SyntaxError: no functional comes into being,
  and nothing is left for a later \<^verbatim>\<open>evaluate\<close> to fail on.
\<close>
theorem compile_error_fails_construction:
  "compile_expr e = Inl SyntaxError \<Longrightarrow> ExpressionParameterFunctional_init e d nm = Inl SyntaxError"
  by (simp add: ExpressionParameterFunctional_init_def)

lemma compile_dangling: "compile_expr ''2*'' = Inl SyntaxError"
  by code_simp

text \<open>The string \<^verbatim>\<open>2*\<close> is no expression; construction fails with SyntaxError.\<close>
theorem compile_error_fails_construction_witness:
  "compile_expr ''2*'' = Inl SyntaxError
   \<and> ExpressionParameterFunctional_init ''2*'' [(''x'', SNum 0)] (Some ''f'') = Inl SyntaxError"
  using compile_error_fails_construction [OF compile_dangling, of "[(''x'', SNum 0)]" "Some ''f''"]
    compile_dangling by simp


lemma py_eval_value:
  "fst (py_eval code mu s) = eval_expr (snd (py_eval code mu s)) mu code"
  by (simp add: py_eval_def Let_def)

lemma expression_evaluate_unfold:
  assumes init: "ExpressionParameterFunctional_init e d nm = Inr f"
      and code: "compile_expr e = Inr code"
      and parse: "parse_parameter (parameter_type f) mu = Inr v"
  shows "GenericParameterFunctional_evaluate f mu s = py_eval code v s"
proof -
  from expression_init_fields [OF init] code
  have "mapping f = (\<lambda>mu. py_eval code mu)" by auto
  with parse show ?thesis by (simp add: GenericParameterFunctional_evaluate_def)
qed

text \<open>
  The expression \<^verbatim>\<open>2*x\<close> with parameter type \<^verbatim>\<open>{'x': 0}\<close> and name \<^verbatim>\<open>f\<close>: original and
  restored functional both evaluate \<^verbatim>\<open>{'x': 5}\<close> to 10.
\<close>
theorem expression_state_roundtrip_witness:
  "\<exists>f g. ExpressionParameterFunctional_init ''2*x'' [(''x'', SNum 0)] (Some ''f'') = Inr f
     \<and> ExpressionParameterFunctional_getstate f = (''2*x'', [(''x'', [])], Some ''f'')
     \<and> ExpressionParameterFunctional_setstate (ExpressionParameterFunctional_getstate f) = Inr g
     \<and> fst (GenericParameterFunctional_evaluate f (Some (map_of [(''x'', VInt 5)])) initial_state)
         = Inr (VArr [] [10])
     \<and> fst (GenericParameterFunctional_evaluate g (Some (map_of [(''x'', VInt 5)])) initial_state)
         = Inr (VArr [] [10])"
proof -
  obtain f where init: "ExpressionParameterFunctional_init ''2*x'' [(''x'', SNum 0)] (Some ''f'') = Inr f"
    by (simp add: ExpressionParameterFunctional_init_def compile_2x)
  from expression_state_roundtrip [OF init]
  obtain g where st: "ExpressionParameterFunctional_getstate f
                        = (''2*x'', build_parameter_type [(''x'', SNum 0)], Some ''f'')"
    and g: "ExpressionParameterFunctional_setstate (ExpressionParameterFunctional_getstate f) = Inr g"
    and same: "\<forall>mu s. GenericParameterFunctional_evaluate g mu s
                        = GenericParameterFunctional_evaluate f mu s"
    by blast
  from expression_init_fields [OF init] have pt: "parameter_type f = [(''x'', [])]"
    by (auto simp: build_parameter_type_def normalize_shape_def)
  have parse: "parse_parameter (parameter_type f) (Some (map_of [(''x'', VInt 5)]))
                 = Inr (Map.empty(''x'' \<mapsto> VArr [] [5]))"
    by (simp add: pt parse_parameter_def normalize_value_def shape_of_def)
  have run: "fst (py_eval (BinOp (Num 2) Mult (Name ''x'')) (Map.empty(''x'' \<mapsto> VArr [] [5]))
                   initial_state) = Inr (VArr [] [10])"
    by (simp add: py_eval_def Let_def load_name_def binary_op_def checked_array_def
          in_range_def arith_def)
  have "fst (GenericParameterFunctional_evaluate f (Some (map_of [(''x'', VInt 5)])) initial_state)
          = Inr (VArr [] [10])"
    unfolding expression_evaluate_unfold [OF init compile_2x parse] by (rule run)
  with same st g init show ?thesis
    by (auto simp: build_parameter_type_def normalize_shape_def)
qed















section \<open>Properties of the matrix loader\<close>

text \<open>Splitting a string at a separator.\<close>

lemma split_on_absent: "c \<notin> set xs \<Longrightarrow> split_on c xs = [xs]"
  by (induction xs) auto

lemma split_on_nonempty: "split_on c xs \<noteq> []"
  by (induction xs) (auto split: list.splits)

lemma split_on_append: "split_on c (xs @ c # ys) = split_on c xs @ split_on c ys"
proof (induction xs)
  case Nil
  show ?case by simp
next
  case (Cons x xs)
  obtain p ps where p: "split_on c xs = p # ps"
    using split_on_nonempty [of c xs] by (cases "split_on c xs") auto
  with Cons show ?case by simp
qed

text \<open>The name of a path is what follows its last slash.\<close>
lemma path_name_last:
  assumes dir: "dir = [] \<or> last dir = CHR ''/''"
      and nm: "nm \<noteq> []" "nm \<noteq> ''.''" "CHR ''/'' \<notin> set nm"
  shows "path_name (dir @ nm) = nm"
proof (cases "dir = []")
  case True
  with nm show ?thesis by (simp add: path_name_def split_on_absent)
next
  case False
  with dir obtain d where d: "dir = d @ ''/''"
    by (metis append_butlast_last_id)
  have "split_on CHR ''/'' (dir @ nm) = split_on CHR ''/'' d @ [nm]"
    using split_on_append [of "CHR ''/''" d nm] nm(3) by (simp add: d split_on_absent)
  with nm show ?thesis by (simp add: path_name_def)
qed

text \<open>
  A path whose name ends in a dot and three characters has that suffix, in lower case,
  as its detected extension (the part of the name before the dot must not consist of
  dots only).
\<close>
lemma detect_extension_suffix:
  assumes dir: "dir = [] \<or> last dir = CHR ''/''"
      and stem: "CHR ''/'' \<notin> set stem" "\<exists>c \<in> set stem. c \<noteq> CHR ''.''"
      and ext: "length ext = 3" "CHR ''.'' \<notin> set ext" "CHR ''/'' \<notin> set ext"
  shows "detect_extension (dir @ stem @ ''.'' @ ext) = Inr (Some (lower (''.'' @ ext)))"
proof -
  define nm where "nm = stem @ ''.'' @ ext"
  define stem' where "stem' = dropWhile (\<lambda>c. c = CHR ''.'') stem"
  from ext have extne: "ext \<noteq> []" by auto
  from stem ext have a: "nm \<noteq> []" "nm \<noteq> ''.''" "CHR ''/'' \<notin> set nm"
    by (auto simp: nm_def append_eq_Cons_conv)
  have pn: "path_name (dir @ nm) = nm"
    by (rule path_name_last [OF dir a])
  from extne ext have lst: "last nm \<noteq> CHR ''.''"
    unfolding nm_def by (metis append_assoc last_appendR last_in_set)
  from stem(2) obtain c where "c \<in> set stem" "\<not> (\<lambda>c. c = CHR ''.'') c" by blast
  then have "dropWhile (\<lambda>c. c = CHR ''.'') (stem @ ''.'' @ ext)
               = dropWhile (\<lambda>c. c = CHR ''.'') stem @ ''.'' @ ext"
    by (rule dropWhile_append1)
  then have dw: "dropWhile (\<lambda>c. c = CHR ''.'') nm = stem' @ CHR ''.'' # ext"
    by (simp add: nm_def stem'_def)
  have sp: "split_on CHR ''.'' (stem' @ CHR ''.'' # ext) = split_on CHR ''.'' stem' @ [ext]"
    using ext(2) by (simp add: split_on_append split_on_absent)
  obtain p ps where p: "split_on CHR ''.'' stem' = p # ps"
    using split_on_nonempty [of "CHR ''.''" stem']
    by (cases "split_on CHR ''.'' stem'") auto
  have sfx: "suffixes (dir @ nm) = map (\<lambda>x. CHR ''.'' # x) ps @ [CHR ''.'' # ext]"
    using lst by (simp add: suffixes_def pn Let_def dw sp p)
  have "detect_extension (dir @ nm) = Inr (Some (lower (CHR ''.'' # ext)))"
    using ext(1) by (simp add: detect_extension_def Let_def sfx)
  then show ?thesis by (simp add: nm_def)
qed

lemma detect_example: "detect_extension ''data/run.1/M.MTX'' = Inr (Some ''.mtx'')"
  using detect_extension_suffix [of "''data/run.1/''" "''M''" "''MTX''"]
  by (simp add: lower_def lower_char_def)










end
